theory Spec2Isabelle
  imports Main
begin

section \<open>Data: JSON values, requests, responses, the world outside the process\<close>

text \<open>
  The program is \<^verbatim>\<open>app.js\<close>: an Express application, a list of middleware and route
  handlers registered in order. The handlers are embedded line by line. What they call
  (Express's router, body parsers and response methods, multer's \<^verbatim>\<open>array\<close> middleware and
  disk storage, axios, Node's \<^verbatim>\<open>path\<close> module, \<^verbatim>\<open>Date.now\<close>, \<^verbatim>\<open>process.env\<close>) is not part of
  the repository; it is written out as the small executable primitives of this section
  and the next, following the behaviour of those libraries.
\<close>

text \<open>
  A JavaScript value that JSON can carry. A number is kept as the text that
  \<^verbatim>\<open>JSON.stringify\<close> writes for it (JavaScript numbers are doubles, and the program never
  computes with one); the properties of an object are in the order in which they are
  written out.
\<close>

datatype json =
    JNull
  | JBool bool
  | JNum string
  | JStr string
  | JArr "json list"
  | JObj "(string \<times> json) list"

datatype http_method = GET | POST | PUT | DELETE

text \<open>One file part of a multipart body, as the multipart decoder hands it to multer.\<close>

record part =
  part_fieldname :: string
  part_originalname :: string
  part_encoding :: string
  part_mimetype :: string
  part_data :: string

text \<open>
  The body of a request, as the parser of its content type sees it: none; a
  form-urlencoded body (the parsed object); a JSON body (the parsed value); a multipart
  body (its file parts, in stream order; the handlers never read the text fields); or a
  JSON or form-urlencoded body that its parser rejects (malformed, too large, an
  unsupported charset or encoding), with the status of the parser's error. A multipart
  body that the decoder cannot read is outside this type.
\<close>

datatype payload =
    NoBody
  | UrlEncoded json
  | JsonBody json
  | Multipart "part list"
  | BadJson nat
  | BadForm nat

text \<open>The file descriptor multer puts into \<^verbatim>\<open>req.files\<close> (disk storage).\<close>

record uploaded_file =
  fieldname :: string
  originalname :: string
  encoding :: string
  mimetype :: string
  destination :: string
  filename :: string
  path :: string
  size_bytes :: nat

text \<open>
  The \<^verbatim>\<open>req\<close> object. \<open>segments\<close> is the request path split at \<^verbatim>\<open>/\<close> (empty segments
  dropped, each segment percent-decoded). \<open>headers\<close> are the request headers, the names
  in lower case as Node gives them. \<open>params\<close>, \<open>body\<close> and \<open>files\<close> are what the
  router, the body parsers and multer set; \<open>None\<close> is JavaScript's \<^verbatim>\<open>undefined\<close>.
  The query string, which no handler reads, and HEAD requests are not modelled.
\<close>

record req =
  req_method :: http_method
  segments :: "string list"
  headers :: "(string \<times> string) list"
  payload :: payload
  params :: "(string \<times> string) list"
  body :: "json option"
  files :: "uploaded_file list option"

text \<open>
  The \<^verbatim>\<open>res\<close> object while the chain runs: the status code (Express starts it at 200; no
  handler of this program sets it) and the property \<^verbatim>\<open>addedStuff\<close> that the two custom
  middleware functions set.
\<close>

record res =
  statusCode :: nat
  addedStuff :: "string option"

text \<open>
  A response body: text (also the contents of a file), a JSON value, or the HTML page
  that Express's final handler writes for an error or an unmatched request.
\<close>

datatype content = Text string | Json json | ErrorPage

text \<open>
  What goes back to the client: the status, the content type (empty when the header is
  absent) and the body. The other response headers are not modelled.
\<close>

record response =
  status :: nat
  content_type :: string
  sent :: content

text \<open>
  What \<^verbatim>\<open>axios.get\<close> throws when it fails (an \<^verbatim>\<open>AxiosError\<close>, or the \<^verbatim>\<open>TypeError\<close> of an
  invalid URL): the error object's numeric \<^verbatim>\<open>status\<close> property, if it has one, and what
  \<^verbatim>\<open>JSON.stringify\<close> makes of the object.
\<close>

record thrown =
  thrown_status :: "nat option"
  thrown_json :: json

text \<open>
  Errors that reach \<^verbatim>\<open>next(err)\<close>: multer's (with its code), what axios threw, the 404 of
  \<^verbatim>\<open>res.sendFile\<close> on a missing file, a body parser's error (with its status), and the
  \<^verbatim>\<open>TypeError\<close> of reading a property of \<^verbatim>\<open>undefined\<close>.
\<close>

datatype error =
    MulterError string
  | Thrown thrown
  | NotFoundError
  | BodyError nat
  | TypeError

text \<open>
  Everything outside the request. The state: the file system (path to contents), the
  directory of \<^verbatim>\<open>app.js\<close> (\<^verbatim>\<open>__dirname\<close>), the process environment, the clock (\<open>clock w n\<close>
  is what the \<open>n\<close>-th call of \<^verbatim>\<open>Date.now()\<close> returns; \<open>reads\<close> counts the calls so far),
  and the upstream API (\<open>upstream w n url\<close> is how the \<open>n\<close>-th \<^verbatim>\<open>axios.get(url)\<close> settles;
  \<open>calls\<close> lists the URLs given to \<^verbatim>\<open>axios.get\<close> so far).

  And two functions of the libraries that the model leaves open: \<open>revalidate w hs c\<close>
  is Express's freshness test of the request headers \<open>hs\<close> against the response with
  body \<open>c\<close>, in the cases that this theory does not decide; \<open>send_conditional w hs c\<close> is
  the answer of the file server to a conditional or range request with the headers
  \<open>hs\<close> for a file of contents \<open>c\<close>.
\<close>

record world =
  fs :: "string \<Rightarrow> string option"
  dirname :: string
  env :: "string \<Rightarrow> string option"
  clock :: "nat \<Rightarrow> nat"
  reads :: nat
  upstream :: "nat \<Rightarrow> string \<Rightarrow> thrown + json"
  calls :: "string list"
  revalidate :: "(string \<times> string) list \<Rightarrow> content \<Rightarrow> bool"
  send_conditional :: "(string \<times> string) list \<Rightarrow> string \<Rightarrow> response"

text \<open>What one middleware function or handler does: pass on, fail, or respond.\<close>

datatype step =
    Next req res
  | Fail error
  | Sent response

type_synonym handler = "world \<Rightarrow> req \<Rightarrow> res \<Rightarrow> world \<times> step"

section \<open>Library primitives\<close>

subsection \<open>Express: responses\<close>

text \<open>A request header; a header with an empty value counts as absent.\<close>

definition header :: "(string \<times> string) list \<Rightarrow> string \<Rightarrow> string option" where
  "header hs n =
     (case map_of hs n of None \<Rightarrow> None | Some v \<Rightarrow> if v = [] then None else Some v)"

text \<open>
  \<^verbatim>\<open>req.fresh\<close>, as \<^verbatim>\<open>res.send\<close> reads it, for a response that carries an ETag and no
  \<^verbatim>\<open>Last-Modified\<close>: only a GET with a success status can be fresh; without
  \<^verbatim>\<open>If-None-Match\<close> it is not; with \<^verbatim>\<open>If-None-Match: *\<close> and neither \<^verbatim>\<open>If-Modified-Since\<close>
  nor \<^verbatim>\<open>Cache-Control\<close> it is; the other cases are left to \<open>revalidate\<close>.
\<close>

definition req_fresh :: "world \<Rightarrow> req \<Rightarrow> res \<Rightarrow> content \<Rightarrow> bool" where
  "req_fresh w rq rs c =
     (req_method rq = GET
      \<and> ((200 \<le> statusCode rs \<and> statusCode rs < 300) \<or> statusCode rs = 304)
      \<and> (case header (headers rq) ''if-none-match'' of
            None \<Rightarrow> False
          | Some v \<Rightarrow>
              if v = ''*'' \<and> header (headers rq) ''if-modified-since'' = None
                 \<and> header (headers rq) ''cache-control'' = None
                then True
              else revalidate w (headers rq) c))"

text \<open>The answer to a fresh request: 304, no content type, no body.\<close>

definition not_modified :: response where
  "not_modified = \<lparr>status = 304, content_type = [], sent = Text []\<rparr>"

text \<open>\<^verbatim>\<open>res.send(text)\<close> and \<^verbatim>\<open>res.json(value)\<close>.\<close>

definition res_send :: "world \<Rightarrow> req \<Rightarrow> res \<Rightarrow> string \<Rightarrow> response" where
  "res_send w rq rs s =
     (if req_fresh w rq rs (Text s) then not_modified
      else \<lparr>status = statusCode rs, content_type = ''text/html; charset=utf-8'',
            sent = Text s\<rparr>)"

definition res_json :: "world \<Rightarrow> req \<Rightarrow> res \<Rightarrow> json \<Rightarrow> response" where
  "res_json w rq rs j =
     (if req_fresh w rq rs (Json j) then not_modified
      else \<lparr>status = statusCode rs, content_type = ''application/json; charset=utf-8'',
            sent = Json j\<rparr>)"

text \<open>
  An object literal whose property values may be \<^verbatim>\<open>undefined\<close>: JSON serialisation
  drops those properties.
\<close>

fun object :: "(string \<times> json option) list \<Rightarrow> (string \<times> json) list" where
  "object [] = []"
| "object ((k, None) # kvs) = object kvs"
| "object ((k, Some v) # kvs) = (k, v) # object kvs"

text \<open>Property access \<^verbatim>\<open>value.key\<close> on a decoded body.\<close>

fun get_prop :: "json \<Rightarrow> string \<Rightarrow> json option" where
  "get_prop (JObj kvs) k = map_of kvs k"
| "get_prop _ k = None"

text \<open>The final handlers of Express: no route matched, and an error was passed on.\<close>

definition not_found :: response where
  "not_found = \<lparr>status = 404, content_type = ''text/html; charset=utf-8'',
     sent = ErrorPage\<rparr>"

fun err_status :: "error \<Rightarrow> nat option" where
  "err_status (MulterError c) = None"
| "err_status (Thrown t) = thrown_status t"
| "err_status NotFoundError = Some 404"
| "err_status (BodyError s) = Some s"
| "err_status TypeError = None"

definition error_response :: "error \<Rightarrow> response" where
  "error_response e =
     \<lparr>status = (case err_status e of
                  None \<Rightarrow> 500
                | Some s \<Rightarrow> if 400 \<le> s \<and> s < 600 then s else 500),
      content_type = ''text/html; charset=utf-8'',
      sent = ErrorPage\<rparr>"

subsection \<open>Express: routing\<close>

text \<open>Route paths and prefixes match without regard to the case of ASCII letters.\<close>

definition to_lower :: "char \<Rightarrow> char" where
  "to_lower c =
     (case map_of (zip ''ABCDEFGHIJKLMNOPQRSTUVWXYZ'' ''abcdefghijklmnopqrstuvwxyz'') c of
        None \<Rightarrow> c
      | Some l \<Rightarrow> l)"

definition same_segment :: "string \<Rightarrow> string \<Rightarrow> bool" where
  "same_segment s x = (map to_lower s = map to_lower x)"

datatype seg = Lit string | Param string

text \<open>
  A route path against the request's segments; a named parameter takes one non-empty
  segment, as it is.
\<close>

fun match_route :: "seg list \<Rightarrow> string list \<Rightarrow> (string \<times> string) list option" where
  "match_route [] [] = Some []"
| "match_route (Lit s # ps) (x # xs) =
     (if same_segment s x then match_route ps xs else None)"
| "match_route (Param n # ps) (x # xs) =
     (if x = [] then None
      else (case match_route ps xs of None \<Rightarrow> None | Some m \<Rightarrow> Some ((n, x) # m)))"
| "match_route _ _ = None"

text \<open>\<^verbatim>\<open>app.use(prefix, ...)\<close> matches every method and every path under the prefix.\<close>

fun is_prefix :: "string list \<Rightarrow> string list \<Rightarrow> bool" where
  "is_prefix [] xs = True"
| "is_prefix (p # ps) [] = False"
| "is_prefix (p # ps) (x # xs) = (same_segment p x \<and> is_prefix ps xs)"

datatype matcher = Use "string list" | Route http_method "seg list"

fun matches :: "matcher \<Rightarrow> req \<Rightarrow> (string \<times> string) list option" where
  "matches (Use pre) rq = (if is_prefix pre (segments rq) then Some [] else None)"
| "matches (Route m pat) rq =
     (if req_method rq = m then match_route pat (segments rq) else None)"

text \<open>
  The router: the layers run in registration order; a layer that does not match is
  skipped; \<^verbatim>\<open>next()\<close> goes on to the following layer, \<^verbatim>\<open>next(err)\<close> to the error handler;
  when no layer is left the answer is 404.
\<close>

fun run :: "(matcher \<times> handler) list \<Rightarrow> world \<Rightarrow> req \<Rightarrow> res \<Rightarrow> world \<times> response" where
  "run [] w rq rs = (w, not_found)"
| "run ((m, h) # ls) w rq rs =
     (case matches m rq of
        None \<Rightarrow> run ls w rq rs
      | Some ps \<Rightarrow>
          (case h w (rq\<lparr>params := ps\<rparr>) rs of
             (w', Next rq' rs') \<Rightarrow> run ls w' rq' rs'
           | (w', Fail e) \<Rightarrow> (w', error_response e)
           | (w', Sent r) \<Rightarrow> (w', r)))"

subsection \<open>Express: built-in middleware\<close>

text \<open>\<^verbatim>\<open>morgan("dev")\<close> writes a log line to standard output and passes on.\<close>

definition morgan :: handler where
  "morgan w rq rs = (w, Next rq rs)"

text \<open>
  The body parsers, for every method. Each leaves \<^verbatim>\<open>req.body\<close> an object (empty when
  nothing was parsed yet), stores the decoded body when the request carries its content
  type, and passes the error on for a body it rejects. \<^verbatim>\<open>express.json()\<close> is strict: a
  JSON body that is neither an object nor an array is rejected with status 400.
\<close>

fun structured :: "json \<Rightarrow> bool" where
  "structured (JObj kvs) = True"
| "structured (JArr xs) = True"
| "structured _ = False"

definition body_or_empty :: "req \<Rightarrow> json" where
  "body_or_empty rq = (case body rq of None \<Rightarrow> JObj [] | Some b \<Rightarrow> b)"

definition express_json :: handler where
  "express_json w rq rs =
     (case payload rq of
        JsonBody j \<Rightarrow>
          if structured j then (w, Next (rq\<lparr>body := Some j\<rparr>) rs)
          else (w, Fail (BodyError 400))
      | BadJson s \<Rightarrow> (w, Fail (BodyError s))
      | _ \<Rightarrow> (w, Next (rq\<lparr>body := Some (body_or_empty rq)\<rparr>) rs))"

definition express_urlencoded :: handler where
  "express_urlencoded w rq rs =
     (case payload rq of
        UrlEncoded j \<Rightarrow> (w, Next (rq\<lparr>body := Some j\<rparr>) rs)
      | BadForm s \<Rightarrow> (w, Fail (BodyError s))
      | _ \<Rightarrow> (w, Next (rq\<lparr>body := Some (body_or_empty rq)\<rparr>) rs))"

text \<open>
  The file server behind \<^verbatim>\<open>res.sendFile\<close> and \<^verbatim>\<open>express.static\<close>: a request without
  conditional and range headers gets the file with status 200; what a request with one of
  them gets is left to \<open>send_conditional\<close>.
\<close>

definition plain_request :: "(string \<times> string) list \<Rightarrow> bool" where
  "plain_request hs =
     (header hs ''if-none-match'' = None \<and> header hs ''if-modified-since'' = None
      \<and> header hs ''if-match'' = None \<and> header hs ''if-unmodified-since'' = None
      \<and> header hs ''range'' = None)"

definition send_file :: "world \<Rightarrow> req \<Rightarrow> res \<Rightarrow> string \<Rightarrow> string \<Rightarrow> response" where
  "send_file w rq rs ctype c =
     (if plain_request (headers rq)
        then \<lparr>status = statusCode rs, content_type = ctype, sent = Text c\<rparr>
      else send_conditional w (headers rq) c)"

text \<open>
  \<^verbatim>\<open>express.static(root)\<close> mounted under a prefix of \<open>n\<close> segments: a GET for a file that
  exists under \<open>root\<close> is answered with it, everything else is passed on. (The content
  type, which Express chooses by the file's extension, is left at the default.)
\<close>

definition express_static :: "nat \<Rightarrow> string \<Rightarrow> handler" where
  "express_static n root w rq rs =
     (if req_method rq = GET then
        (case fs w (root @ concat (map (\<lambda>s. ''/'' @ s) (drop n (segments rq)))) of
           None \<Rightarrow> (w, Next rq rs)
         | Some c \<Rightarrow> (w, Sent (send_file w rq rs ''application/octet-stream'' c)))
      else (w, Next rq rs))"

text \<open>
  \<^verbatim>\<open>res.sendFile(p, {root: __dirname})\<close> for an \<^verbatim>\<open>.html\<close> file: the file's contents, or the
  404 error passed on when there is no such file.
\<close>

definition res_sendFile :: "world \<Rightarrow> req \<Rightarrow> res \<Rightarrow> string \<Rightarrow> step" where
  "res_sendFile w rq rs p =
     (case fs w (dirname w @ p) of
        None \<Rightarrow> Fail NotFoundError
      | Some c \<Rightarrow> Sent (send_file w rq rs ''text/html; charset=UTF-8'' c))"

subsection \<open>Node: path, Date.now, process.env, template literals\<close>

text \<open>
  \<^verbatim>\<open>path.extname\<close> and \<^verbatim>\<open>path.basename\<close> (POSIX). Both look at the last component of the
  path, trailing slashes ignored. The extension runs from the last dot of that component
  to its end; it is empty when there is no dot, when the last dot is the component's
  first character, and for the component \<^verbatim>\<open>..\<close>.
\<close>

definition last_component :: "string \<Rightarrow> string" where
  "last_component p =
     rev (takeWhile (\<lambda>c. c \<noteq> CHR ''/'') (dropWhile (\<lambda>c. c = CHR ''/'') (rev p)))"

definition extname :: "string \<Rightarrow> string" where
  "extname p =
     (let c = last_component p;
          after = takeWhile (\<lambda>x. x \<noteq> CHR ''.'') (rev c);
          dot = length c - Suc (length after)
      in if CHR ''.'' \<notin> set c \<or> dot = 0 \<or> c = ''..'' then [] else drop dot c)"

text \<open>
  \<^verbatim>\<open>path.basename(p, suffix)\<close>: the last component, without the suffix when the component
  ends with it and is longer than it; empty when the whole path is the suffix.
\<close>

definition ends_with :: "string \<Rightarrow> string \<Rightarrow> bool" where
  "ends_with c s = (length s \<le> length c \<and> drop (length c - length s) c = s)"

definition basename :: "string \<Rightarrow> string \<Rightarrow> string" where
  "basename p suffix =
     (let c = last_component p
      in if suffix \<noteq> [] \<and> suffix = p then []
         else if suffix \<noteq> [] \<and> length suffix < length c \<and> ends_with c suffix
           then take (length c - length suffix) c
         else c)"

text \<open>A number inside a template literal: its decimal digits.\<close>

fun decimal :: "nat \<Rightarrow> string" where
  "decimal n =
     (if n < 10 then [''0123456789'' ! n]
      else decimal (n div 10) @ [''0123456789'' ! (n mod 10)])"

declare decimal.simps [simp del]

text \<open>\<^verbatim>\<open>Date.now()\<close> reads the clock; the next reading is the clock's next value.\<close>

definition date_now :: "world \<Rightarrow> world \<times> nat" where
  "date_now w = (w\<lparr>reads := Suc (reads w)\<rparr>, clock w (reads w))"

text \<open>An optional string inside a template literal: \<^verbatim>\<open>undefined\<close> prints as that word.\<close>

definition template :: "string option \<Rightarrow> string" where
  "template v = (case v of None \<Rightarrow> ''undefined'' | Some s \<Rightarrow> s)"

subsection \<open>axios\<close>

text \<open>
  \<^verbatim>\<open>await axios.get(url)\<close>: the call is recorded, and either the response's \<^verbatim>\<open>data\<close> comes
  back or an error is thrown.
\<close>

definition axios_get :: "world \<Rightarrow> string \<Rightarrow> world \<times> (thrown + json)" where
  "axios_get w url = (w\<lparr>calls := calls w @ [url]\<rparr>, upstream w (length (calls w)) url)"

section \<open>The application\<close>

subsection \<open>File uploads: the disk storage and multer's array middleware\<close>

text \<open>The two functions given to \<^verbatim>\<open>multer.diskStorage\<close>.\<close>

definition storage_destination :: string where
  "storage_destination = ''public/uploads''"

definition storage_filename :: "world \<Rightarrow> part \<Rightarrow> world \<times> string" where
  "storage_filename w p =
     (let extension = extname (part_originalname p);
          basenameWithoutExtension = basename (part_originalname p) extension;
          (w', now) = date_now w;
          newName = basenameWithoutExtension @ ''-'' @ decimal now @ extension
      in (w', newName))"

text \<open>
  The disk storage handling one file: it asks for the destination and the file name,
  writes the data to \<^verbatim>\<open>path.join(destination, filename)\<close> and returns the descriptor. The
  stored name has no slash (\<open>stored_name_no_slash\<close> below), so the joined path is the
  destination, a slash and the name.
\<close>

definition handle_file :: "world \<Rightarrow> part \<Rightarrow> world \<times> uploaded_file" where
  "handle_file w p =
     (let dest = storage_destination;
          (w', name) = storage_filename w p;
          final = dest @ ''/'' @ name
      in (w'\<lparr>fs := (fs w')(final \<mapsto> part_data p)\<rparr>,
          \<lparr>fieldname = part_fieldname p, originalname = part_originalname p,
           encoding = part_encoding p, mimetype = part_mimetype p,
           destination = dest, filename = name, path = final,
           size_bytes = length (part_data p)\<rparr>))"

text \<open>When multer fails it deletes the files it has stored for the request.\<close>

fun remove_uploaded :: "world \<Rightarrow> uploaded_file list \<Rightarrow> world" where
  "remove_uploaded w [] = w"
| "remove_uploaded w (f # fl) = remove_uploaded (w\<lparr>fs := (fs w)(path f := None)\<rparr>) fl"

text \<open>
  Modelled from the spec: multer, the multipart file-upload decoder, is an external
  collaborator and not part of the repository's source. The spec says of it that it
  enforces the limit of three files and writes the accepted files to disk before the
  handler runs. \<^verbatim>\<open>upload.array(field, maxCount)\<close> is written out as multer does it: the file
  parts are taken in order; a part without a file name (a file input left empty) is
  skipped, neither counted nor stored; \<open>left\<close> counts how many more files the field may
  take; a named part under another field name, or one more than \<open>maxCount\<close>, ends the
  request with the error \<^verbatim>\<open>LIMIT_UNEXPECTED_FILE\<close>.
\<close>

fun multer_files ::
  "string \<Rightarrow> nat \<Rightarrow> world \<Rightarrow> part list \<Rightarrow> uploaded_file list
     \<Rightarrow> world \<times> (error + uploaded_file list)" where
  "multer_files field left w [] acc = (w, Inr acc)"
| "multer_files field left w (p # ps) acc =
     (if part_originalname p = [] then multer_files field left w ps acc
      else if part_fieldname p \<noteq> field \<or> left = 0
        then (remove_uploaded w acc, Inl (MulterError ''LIMIT_UNEXPECTED_FILE''))
      else (case handle_file w p of
              (w', f) \<Rightarrow> multer_files field (left - 1) w' ps (acc @ [f])))"

text \<open>A request that is not multipart passes through with \<^verbatim>\<open>req.files\<close> undefined.\<close>

definition upload_array :: "string \<Rightarrow> nat \<Rightarrow> handler" where
  "upload_array field maxCount w rq rs =
     (case payload rq of
        Multipart ps \<Rightarrow>
          (case multer_files field maxCount w ps [] of
             (w', Inl e) \<Rightarrow> (w', Fail e)
           | (w', Inr fl) \<Rightarrow> (w', Next (rq\<lparr>files := Some fl\<rparr>) rs))
      | _ \<Rightarrow> (w, Next rq rs))"

text \<open>The parts of a multipart body that carry a file name.\<close>

definition named_parts :: "part list \<Rightarrow> part list" where
  "named_parts ps = filter (\<lambda>p. part_originalname p \<noteq> []) ps"

text \<open>A file descriptor as it appears in a JSON response.\<close>

definition file_json :: "uploaded_file \<Rightarrow> json" where
  "file_json f =
     JObj [(''fieldname'', JStr (fieldname f)), (''originalname'', JStr (originalname f)),
           (''encoding'', JStr (encoding f)), (''mimetype'', JStr (mimetype f)),
           (''destination'', JStr (destination f)), (''filename'', JStr (filename f)),
           (''path'', JStr (path f)), (''size'', JNum (decimal (size_bytes f)))]"

subsection \<open>The handlers of app.js\<close>

text \<open>\<^verbatim>\<open>app.get("/", ...)\<close>\<close>

definition get_root :: handler where
  "get_root w rq rs = (w, Sent (res_send w rq rs ''Goodbye world!''))"

text \<open>\<^verbatim>\<open>app.get("/html-example", ...)\<close>\<close>

definition get_html_example :: handler where
  "get_html_example w rq rs = (w, res_sendFile w rq rs ''/public/some-page.html'')"

text \<open>\<^verbatim>\<open>app.get("/json-example", ...)\<close>\<close>

definition get_json_example :: handler where
  "get_json_example w rq rs =
     (let body = JObj [(''title'', JStr ''Hello!''),
                       (''heading'', JStr ''Hello!''),
                       (''message'', JStr ''Welcome to this JSON document, served up by Express''),
                       (''imagePath'', JStr ''/static/images/donkey.jpg'')]
      in (w, Sent (res_json w rq rs body)))"

text \<open>The two custom middleware functions under \<^verbatim>\<open>/middleware-example\<close>.\<close>

definition middleware_first :: handler where
  "middleware_first w rq rs =
     (w, Next rq (rs\<lparr>addedStuff := Some ''First middleware function run!''\<rparr>))"

definition middleware_second :: handler where
  "middleware_second w rq rs =
     (w, Next rq (rs\<lparr>addedStuff :=
            Some (template (addedStuff rs) @ '' Second middleware function run!'')\<rparr>))"

text \<open>
  \<^verbatim>\<open>app.get("/middleware-example", ...)\<close>: the conditional tests \<^verbatim>\<open>res.addedStuff\<close> for
  truthiness (defined and not the empty string).
\<close>

definition get_middleware_example :: handler where
  "get_middleware_example w rq rs =
     (let message = (case addedStuff rs of
                       None \<Rightarrow> ''Sorry, the middleware did not work!''
                     | Some s \<Rightarrow> if s \<noteq> [] then s
                                 else ''Sorry, the middleware did not work!'')
      in (w, Sent (res_send w rq rs message)))"

text \<open>\<^verbatim>\<open>app.post("/post-example", ...)\<close>\<close>

definition post_post_example :: handler where
  "post_post_example w rq rs =
     (case body rq of
        None \<Rightarrow> (w, Fail TypeError)
      | Some b \<Rightarrow>
          (let data = JObj [(''status'', JStr ''amazing success!''),
                            (''message'', JStr ''congratulations on sending us this data!''),
                            (''your_data'',
                               JObj (object [(''name'', get_prop b ''your_name''),
                                             (''email'', get_prop b ''your_email''),
                                             (''agree'', get_prop b ''agree'')]))]
           in (w, Sent (res_json w rq rs data))))"

text \<open>
  \<^verbatim>\<open>app.post("/upload-example", upload.array("my_files", 3), ...)\<close>: the handler that runs
  after multer. The error object of its first branch is built and never used.
\<close>

definition failure_body :: json where
  "failure_body = JObj [(''status'', JStr ''you fail!!!''),
                        (''message'', JStr ''rejected your files... try harder'')]"

definition post_upload_example :: handler where
  "post_upload_example w rq rs =
     (case files rq of
        None \<Rightarrow> (w, Sent (res_json w rq rs failure_body))
      | Some fl \<Rightarrow>
          if length fl = 0 then (w, Sent (res_json w rq rs failure_body))
          else if length fl > 3 then (w, Sent (res_json w rq rs failure_body))
          else
            (let data = JObj [(''status'', JStr ''all good''),
                              (''message'', JStr ''files were uploaded!!!''),
                              (''files'', JArr (map file_json fl))]
             in (w, Sent (res_json w rq rs data))))"

text \<open>\<^verbatim>\<open>app.get("/proxy-example", ...)\<close>\<close>

definition get_proxy_example :: handler where
  "get_proxy_example w rq rs =
     (case axios_get w ''https://my.api.mockaroo.com/animals.json?key=d9ddfc40&num=10'' of
        (w', Inr d) \<Rightarrow> (w', Sent (res_json w' rq rs d))
      | (w', Inl err) \<Rightarrow> (w', Fail (Thrown err)))"

text \<open>\<^verbatim>\<open>app.get("/dotenv-example", ...)\<close>\<close>

definition dotenv_url :: "world \<Rightarrow> string" where
  "dotenv_url w =
     template (env w ''API_BASE_URL'') @ ''?key='' @ template (env w ''API_SECRET_KEY'')
       @ ''&num=10''"

definition dotenv_error :: json where
  "dotenv_error =
     JObj [(''success'', JBool False),
           (''error'', JStr (''Oops... In order to use the dotenv module, you must first ''
              @ ''make a file named .env on your server - see the .env.example file ''
              @ ''for example.''))]"

definition get_dotenv_example :: handler where
  "get_dotenv_example w rq rs =
     (case axios_get w (dotenv_url w) of
        (w', Inr d) \<Rightarrow> (w', Sent (res_json w' rq rs d))
      | (w', Inl err) \<Rightarrow> (w', Sent (res_json w' rq rs dotenv_error)))"

text \<open>\<^verbatim>\<open>app.get("/parameter-example/:animalId", ...)\<close>\<close>

definition parameter_url :: "world \<Rightarrow> string option \<Rightarrow> string" where
  "parameter_url w animalId =
     template (env w ''API_BASE_URL'') @ ''?key='' @ template (env w ''API_SECRET_KEY'')
       @ ''&num=1&id='' @ template animalId"

definition get_parameter_example :: handler where
  "get_parameter_example w rq rs =
     (let animalId = map_of (params rq) ''animalId''
      in case axios_get w (parameter_url w animalId) of
           (w', Inr d) \<Rightarrow>
             (let responseData =
                    JObj (object
                      [(''status'', Some (JStr ''wonderful'')),
                       (''message'',
                          Some (JStr (''Imagine we got the data from the API for animal #''
                                        @ template animalId))),
                       (''animalId'', map_option JStr animalId),
                       (''animal'', Some d)])
              in (w', Sent (res_json w' rq rs responseData)))
         | (w', Inl err) \<Rightarrow> (w', Sent (res_json w' rq rs (thrown_json err))))"

subsection \<open>The layers, in registration order\<close>

definition app :: "(matcher \<times> handler) list" where
  "app =
     [(Use [], morgan),
      (Use [], express_json),
      (Use [], express_urlencoded),
      (Use [''static''], express_static 1 ''public''),
      (Route GET [], get_root),
      (Route GET [Lit ''html-example''], get_html_example),
      (Route GET [Lit ''json-example''], get_json_example),
      (Use [''middleware-example''], middleware_first),
      (Use [''middleware-example''], middleware_second),
      (Route GET [Lit ''middleware-example''], get_middleware_example),
      (Route POST [Lit ''post-example''], post_post_example),
      (Route POST [Lit ''upload-example''], upload_array ''my_files'' 3),
      (Route POST [Lit ''upload-example''], post_upload_example),
      (Route GET [Lit ''proxy-example''], get_proxy_example),
      (Route GET [Lit ''dotenv-example''], get_dotenv_example),
      (Route GET [Lit ''parameter-example'', Param ''animalId''], get_parameter_example)]"

text \<open>One request against the application: a fresh \<^verbatim>\<open>req\<close> and \<^verbatim>\<open>res\<close>, then the layers.\<close>

definition incoming ::
  "http_method \<Rightarrow> string list \<Rightarrow> (string \<times> string) list \<Rightarrow> payload \<Rightarrow> req" where
  "incoming m segs hs pl =
     \<lparr>req_method = m, segments = segs, headers = hs, payload = pl, params = [],
      body = None, files = None\<rparr>"

definition fresh_res :: res where
  "fresh_res = \<lparr>statusCode = 200, addedStuff = None\<rparr>"

definition serve ::
  "world \<Rightarrow> http_method \<Rightarrow> string list \<Rightarrow> (string \<times> string) list \<Rightarrow> payload
     \<Rightarrow> world \<times> response" where
  "serve w m segs hs pl = run app w (incoming m segs hs pl) fresh_res"

text \<open>Requests handled one after another, each on the world the previous one left.\<close>

fun serve_all ::
  "world \<Rightarrow> (http_method \<times> string list \<times> (string \<times> string) list \<times> payload) list
     \<Rightarrow> world \<times> response list" where
  "serve_all w [] = (w, [])"
| "serve_all w ((m, segs, hs, pl) # rqs) =
     (case serve w m segs hs pl of
        (w', r) \<Rightarrow> (case serve_all w' rqs of (w'', rs) \<Rightarrow> (w'', r # rs)))"

text \<open>The paths \<^verbatim>\<open>/\<close>, \<^verbatim>\<open>/html-example\<close>, \<^verbatim>\<open>/json-example\<close> and \<^verbatim>\<open>/middleware-example\<close>.\<close>

definition static_get_routes :: "string list list" where
  "static_get_routes = [[], [''html-example''], [''json-example''], [''middleware-example'']]"

text \<open>The bodies that both body parsers let through.\<close>

fun accepted :: "payload \<Rightarrow> bool" where
  "accepted (JsonBody j) = structured j"
| "accepted (BadJson s) = False"
| "accepted (BadForm s) = False"
| "accepted _ = True"

text \<open>What \<^verbatim>\<open>req.body\<close> holds after the two parsers, for a body they let through.\<close>

definition parsed :: "payload \<Rightarrow> json" where
  "parsed pl = (case pl of UrlEncoded j \<Rightarrow> j | JsonBody j \<Rightarrow> j | _ \<Rightarrow> JObj [])"

text \<open>The layers after the logger and the body parsers.\<close>

definition routes :: "(matcher \<times> handler) list" where
  "routes = drop 3 app"

subsection \<open>A concrete world and concrete uploads, for evaluation\<close>

text \<open>
  The upstream API of this world answers the first call, when it goes to the configured
  base URL, and fails every other call as axios fails on an invalid URL.
\<close>

definition example_world :: world where
  "example_world =
     \<lparr>fs = Map.empty(''/srv/app/public/some-page.html'' \<mapsto> ''<h1>Hello!</h1>''),
      dirname = ''/srv/app'',
      env = Map.empty(''API_BASE_URL'' \<mapsto> ''https://api.example/animals.json'',
                      ''API_SECRET_KEY'' \<mapsto> ''s3cret''),
      clock = (\<lambda>n. 1700000000000 + n),
      reads = 0,
      upstream = (\<lambda>n url.
         if n = 0 \<and> take 32 url = ''https://api.example/animals.json''
           then Inr (JArr [JStr ''cat''])
         else Inl \<lparr>thrown_status = None,
                   thrown_json = JObj [(''code'', JStr ''ERR_INVALID_URL''),
                                       (''input'', JStr url)]\<rparr>),
      calls = [],
      revalidate = (\<lambda>hs c. False),
      send_conditional = (\<lambda>hs c. not_modified)\<rparr>"

definition example_part :: "string \<Rightarrow> part" where
  "example_part n =
     \<lparr>part_fieldname = ''my_files'', part_originalname = n, part_encoding = ''7bit'',
      part_mimetype = ''application/octet-stream'', part_data = ''abc''\<rparr>"

text \<open>An upload of two files, with a file input left empty between them.\<close>

definition example_upload :: req where
  "example_upload =
     incoming POST [''upload-example''] []
       (Multipart [example_part ''donkey.jpg'', example_part [],
                   example_part ''notes.tar.gz''])"

text \<open>What multer puts into \<^verbatim>\<open>req.files\<close> for that upload in that world.\<close>

definition example_files :: "uploaded_file list" where
  "example_files =
     [\<lparr>fieldname = ''my_files'', originalname = ''donkey.jpg'', encoding = ''7bit'',
       mimetype = ''application/octet-stream'', destination = ''public/uploads'',
       filename = ''donkey-1700000000000.jpg'',
       path = ''public/uploads/donkey-1700000000000.jpg'', size_bytes = 3\<rparr>,
      \<lparr>fieldname = ''my_files'', originalname = ''notes.tar.gz'', encoding = ''7bit'',
       mimetype = ''application/octet-stream'', destination = ''public/uploads'',
       filename = ''notes.tar-1700000000001.gz'',
       path = ''public/uploads/notes.tar-1700000000001.gz'', size_bytes = 3\<rparr>]"

text \<open>The world after that upload: the clock was read twice, two files were written.\<close>

definition example_world_after :: world where
  "example_world_after =
     example_world
       \<lparr>reads := 2,
        fs := (fs example_world)
                (''public/uploads/donkey-1700000000000.jpg'' \<mapsto> ''abc'',
                 ''public/uploads/notes.tar-1700000000001.gz'' \<mapsto> ''abc'')\<rparr>"

text \<open>Four files under the accepted field name.\<close>

definition four_parts :: "part list" where
  "four_parts = [example_part ''a.txt'', example_part ''b.txt'', example_part ''c.txt'',
                 example_part ''d.txt'']"





section \<open>Properties\<close>

subsection \<open>The layers before the routes\<close>

lemma routes_eq:
  "routes =
     [(Use [''static''], express_static 1 ''public''),
      (Route GET [], get_root),
      (Route GET [Lit ''html-example''], get_html_example),
      (Route GET [Lit ''json-example''], get_json_example),
      (Use [''middleware-example''], middleware_first),
      (Use [''middleware-example''], middleware_second),
      (Route GET [Lit ''middleware-example''], get_middleware_example),
      (Route POST [Lit ''post-example''], post_post_example),
      (Route POST [Lit ''upload-example''], upload_array ''my_files'' 3),
      (Route POST [Lit ''upload-example''], post_upload_example),
      (Route GET [Lit ''proxy-example''], get_proxy_example),
      (Route GET [Lit ''dotenv-example''], get_dotenv_example),
      (Route GET [Lit ''parameter-example'', Param ''animalId''], get_parameter_example)]"
  by (simp add: routes_def app_def)

lemma app_eq:
  "app = (Use [], morgan) # (Use [], express_json) # (Use [], express_urlencoded) # routes"
  by (simp add: routes_eq) (simp add: app_def)

text \<open>A body that the parsers let through reaches the routes, decoded.\<close>

lemma serve_accepted:
  assumes "accepted pl"
  shows "serve w m segs hs pl =
     run routes w
       \<lparr>req_method = m, segments = segs, headers = hs, payload = pl, params = [],
        body = Some (parsed pl), files = None\<rparr>
       fresh_res"
  using assms
  by (cases pl)
     (simp_all add: serve_def app_eq incoming_def morgan_def express_json_def
        express_urlencoded_def body_or_empty_def parsed_def)

text \<open>A body that a parser rejects ends the request with the parser's error.\<close>

lemma serve_rejected:
  assumes "\<not> accepted pl"
  shows "\<exists>s. serve w m segs hs pl = (w, error_response (BodyError s))"
  using assms
  by (cases pl)
     (auto simp add: serve_def app_eq incoming_def morgan_def express_json_def
        express_urlencoded_def body_or_empty_def)

lemma serve_json_null:
  "serve w m segs hs (JsonBody JNull) =
     (w, \<lparr>status = 400, content_type = ''text/html; charset=utf-8'', sent = ErrorPage\<rparr>)"
  by (simp add: serve_def app_eq incoming_def morgan_def express_json_def error_response_def)

subsection \<open>The responses of Express\<close>

lemma req_fresh_params [simp]: "req_fresh w (rq\<lparr>params := ps\<rparr>) rs c = req_fresh w rq rs c"
  by (cases "header (headers rq) ''if-none-match''") (simp_all add: req_fresh_def)

lemma res_send_params [simp]: "res_send w (rq\<lparr>params := ps\<rparr>) rs s = res_send w rq rs s"
  by (simp add: res_send_def)

lemma res_json_params [simp]: "res_json w (rq\<lparr>params := ps\<rparr>) rs j = res_json w rq rs j"
  by (simp add: res_json_def)

lemma send_file_params [simp]:
  "send_file w (rq\<lparr>params := ps\<rparr>) rs t c = send_file w rq rs t c"
  by (simp add: send_file_def)

lemma not_fresh:
  "header (headers rq) ''if-none-match'' = None \<Longrightarrow> \<not> req_fresh w rq rs c"
  by (simp add: req_fresh_def)

lemma not_fresh_POST: "req_method rq = POST \<Longrightarrow> \<not> req_fresh w rq rs c"
  by (simp add: req_fresh_def)

text \<open>\<^verbatim>\<open>If-None-Match: *\<close> alone makes every GET with status 200 fresh.\<close>

lemma fresh_star:
  "req_method rq = GET \<Longrightarrow> headers rq = [(''if-none-match'', ''*'')] \<Longrightarrow> statusCode rs = 200
     \<Longrightarrow> req_fresh w rq rs c"
  by (simp add: req_fresh_def header_def)

lemma plain_request_none_match: "plain_request hs \<Longrightarrow> header hs ''if-none-match'' = None"
  by (simp add: plain_request_def)

lemma plain_request_Nil: "plain_request []"
  by (simp add: plain_request_def header_def)

subsection \<open>The routes, one by one\<close>

lemmas match_defs = routes_eq same_segment_def to_lower_def

lemma route_root:
  "req_method rq = GET \<Longrightarrow> segments rq = [] \<Longrightarrow>
     run routes w rq rs = (w, res_send w rq rs ''Goodbye world!'')"
  by (simp add: match_defs get_root_def)

lemma route_html_example:
  "req_method rq = GET \<Longrightarrow> segments rq = [''html-example''] \<Longrightarrow>
     run routes w rq rs =
       (w, case fs w (dirname w @ ''/public/some-page.html'') of
             None \<Rightarrow> error_response NotFoundError
           | Some c \<Rightarrow> send_file w rq rs ''text/html; charset=UTF-8'' c)"
  by (simp add: match_defs express_static_def get_html_example_def res_sendFile_def
        split: option.splits)

lemma route_json_example:
  "req_method rq = GET \<Longrightarrow> segments rq = [''json-example''] \<Longrightarrow>
     run routes w rq rs =
       (w, res_json w rq rs
             (JObj [(''title'', JStr ''Hello!''), (''heading'', JStr ''Hello!''),
                    (''message'', JStr ''Welcome to this JSON document, served up by Express''),
                    (''imagePath'', JStr ''/static/images/donkey.jpg'')]))"
  by (simp add: match_defs get_json_example_def)

lemma route_middleware_example:
  "req_method rq = GET \<Longrightarrow> segments rq = [''middleware-example''] \<Longrightarrow>
     addedStuff rs = None \<Longrightarrow>
     run routes w rq rs =
       (w, res_send w rq
             (rs\<lparr>addedStuff :=
                   Some ''First middleware function run! Second middleware function run!''\<rparr>)
             ''First middleware function run! Second middleware function run!'')"
  by (simp add: match_defs middleware_first_def middleware_second_def
        get_middleware_example_def template_def)

subsection \<open>GET /\<close>

text \<open>
  C10, as the program has it: a GET request to the root route whose body the body
  parsers let through and that carries no \<^verbatim>\<open>If-None-Match\<close> header is answered with status
  200 and the exact body \<^verbatim>\<open>Goodbye world!\<close>, whatever the world.
\<close>

theorem root_goodbye:
  assumes "accepted pl" and "header hs ''if-none-match'' = None"
  shows "status (snd (serve w GET [] hs pl)) = 200 \<and>
         sent (snd (serve w GET [] hs pl)) = Text ''Goodbye world!''"
  using assms
  by (simp add: serve_accepted route_root res_send_def not_fresh fresh_res_def)

theorem root_goodbye_witness:
  "accepted NoBody \<and> header [(''accept'', ''text/html'')] ''if-none-match'' = None \<and>
   status (snd (serve example_world GET [] [(''accept'', ''text/html'')] NoBody)) = 200 \<and>
   sent (snd (serve example_world GET [] [(''accept'', ''text/html'')] NoBody)) =
     Text ''Goodbye world!''"
proof -
  have a: "accepted NoBody"
    by simp
  have h: "header [(''accept'', ''text/html'')] ''if-none-match'' = None"
    by (simp add: header_def)
  from root_goodbye [OF a h, of example_world] a h show ?thesis
    by (intro conjI) simp_all
qed

text \<open>
  Not every GET to the root route gets status 200: a JSON body that is not an object or
  an array is rejected by the JSON parser with status 400 before the route runs, and a
  request with \<^verbatim>\<open>If-None-Match: *\<close> is answered with 304 and no body.
\<close>

theorem root_not_always_200:
  "snd (serve example_world GET [] [] (JsonBody JNull)) =
     \<lparr>status = 400, content_type = ''text/html; charset=utf-8'', sent = ErrorPage\<rparr> \<and>
   snd (serve example_world GET [] [(''if-none-match'', ''*'')] NoBody) =
     \<lparr>status = 304, content_type = [], sent = Text []\<rparr>"
  by (simp add: serve_json_null serve_accepted route_root res_send_def fresh_star
        fresh_res_def not_modified_def)

subsection \<open>GET /json-example\<close>

text \<open>
  C9, as the program has it: a GET to \<^verbatim>\<open>/json-example\<close> whose body the body parsers let
  through and that carries no \<^verbatim>\<open>If-None-Match\<close> header is answered with status 200 and the
  fixed JSON object with the properties title, heading, message and imagePath; its title
  is \<^verbatim>\<open>Hello!\<close> and its imagePath is \<^verbatim>\<open>/static/images/donkey.jpg\<close>.
\<close>

theorem json_example_body:
  assumes "accepted pl" and "header hs ''if-none-match'' = None"
  shows "\<exists>j. status (snd (serve w GET [''json-example''] hs pl)) = 200
      \<and> content_type (snd (serve w GET [''json-example''] hs pl)) =
          ''application/json; charset=utf-8''
      \<and> sent (snd (serve w GET [''json-example''] hs pl)) = Json j
      \<and> j = JObj [(''title'', JStr ''Hello!''), (''heading'', JStr ''Hello!''),
                   (''message'', JStr ''Welcome to this JSON document, served up by Express''),
                   (''imagePath'', JStr ''/static/images/donkey.jpg'')]
      \<and> get_prop j ''title'' = Some (JStr ''Hello!'')
      \<and> get_prop j ''imagePath'' = Some (JStr ''/static/images/donkey.jpg'')"
  using assms
  by (simp add: serve_accepted route_json_example res_json_def not_fresh fresh_res_def)

theorem json_example_body_witness:
  "accepted NoBody \<and> header [] ''if-none-match'' = None \<and>
   snd (serve example_world GET [''json-example''] [] NoBody) =
     \<lparr>status = 200, content_type = ''application/json; charset=utf-8'',
      sent = Json (JObj [(''title'', JStr ''Hello!''), (''heading'', JStr ''Hello!''),
               (''message'', JStr ''Welcome to this JSON document, served up by Express''),
               (''imagePath'', JStr ''/static/images/donkey.jpg'')])\<rparr>"
proof -
  have a: "accepted NoBody"
    by simp
  have h: "header [] ''if-none-match'' = None"
    by (simp add: header_def)
  from json_example_body [OF a h, of example_world]
  have "snd (serve example_world GET [''json-example''] [] NoBody) =
     \<lparr>status = 200, content_type = ''application/json; charset=utf-8'',
      sent = Json (JObj [(''title'', JStr ''Hello!''), (''heading'', JStr ''Hello!''),
               (''message'', JStr ''Welcome to this JSON document, served up by Express''),
               (''imagePath'', JStr ''/static/images/donkey.jpg'')])\<rparr>"
    by (cases "snd (serve example_world GET [''json-example''] [] NoBody)") simp
  with a h show ?thesis
    by (intro conjI)
qed

text \<open>
  Not every GET to \<^verbatim>\<open>/json-example\<close> gets the JSON object: with a JSON body \<^verbatim>\<open>null\<close> the
  answer is the 400 error page, with \<^verbatim>\<open>If-None-Match: *\<close> it is 304 and no body.
\<close>

theorem json_example_not_always:
  "snd (serve example_world GET [''json-example''] [] (JsonBody JNull)) =
     \<lparr>status = 400, content_type = ''text/html; charset=utf-8'', sent = ErrorPage\<rparr> \<and>
   snd (serve example_world GET [''json-example''] [(''if-none-match'', ''*'')] NoBody) =
     \<lparr>status = 304, content_type = [], sent = Text []\<rparr>"
  by (simp add: serve_json_null serve_accepted route_json_example res_json_def fresh_star
        fresh_res_def not_modified_def)

subsection \<open>GET /middleware-example\<close>

text \<open>
  C5, as the program has it: on a GET to \<^verbatim>\<open>/middleware-example\<close> whose body the body
  parsers let through and that carries no \<^verbatim>\<open>If-None-Match\<close> header, the two middleware
  functions run in registration order before the handler, so the answer is 200 with the
  first marker followed by the second; the handler alone, on a response object that no
  middleware touched, answers such a request with the fallback message.
\<close>

theorem middleware_example_order:
  assumes "accepted pl" and "header hs ''if-none-match'' = None"
  shows "status (snd (serve w GET [''middleware-example''] hs pl)) = 200 \<and>
   sent (snd (serve w GET [''middleware-example''] hs pl)) =
     Text (''First middleware function run!'' @ '' '' @ ''Second middleware function run!'') \<and>
   get_middleware_example w (incoming GET [''middleware-example''] hs pl) fresh_res =
     (w, Sent \<lparr>status = 200, content_type = ''text/html; charset=utf-8'',
               sent = Text ''Sorry, the middleware did not work!''\<rparr>)"
  using assms
  by (simp add: serve_accepted route_middleware_example get_middleware_example_def
        res_send_def not_fresh fresh_res_def incoming_def)

theorem middleware_example_order_witness:
  "accepted (JsonBody (JObj [])) \<and> header [] ''if-none-match'' = None \<and>
   status (snd (serve example_world GET [''middleware-example''] [] (JsonBody (JObj [])))) = 200 \<and>
   sent (snd (serve example_world GET [''middleware-example''] [] (JsonBody (JObj [])))) =
     Text ''First middleware function run! Second middleware function run!''"
proof -
  have a: "accepted (JsonBody (JObj []))"
    by simp
  have h: "header [] ''if-none-match'' = None"
    by (simp add: header_def)
  from middleware_example_order [OF a h, of example_world] a h show ?thesis
    by (intro conjI) simp_all
qed

text \<open>
  Not every GET to \<^verbatim>\<open>/middleware-example\<close> gets the two markers: with a JSON body \<^verbatim>\<open>null\<close>
  the request is answered with 400 before the middleware runs, with \<^verbatim>\<open>If-None-Match: *\<close>
  the answer is 304 and no body.
\<close>

theorem middleware_example_not_always:
  "snd (serve example_world GET [''middleware-example''] [] (JsonBody JNull)) =
     \<lparr>status = 400, content_type = ''text/html; charset=utf-8'', sent = ErrorPage\<rparr> \<and>
   snd (serve example_world GET [''middleware-example''] [(''if-none-match'', ''*'')] NoBody) =
     \<lparr>status = 304, content_type = [], sent = Text []\<rparr>"
  by (simp add: serve_json_null serve_accepted route_middleware_example res_send_def
        fresh_star fresh_res_def not_modified_def)

subsection \<open>Repeated GETs\<close>

lemma serve_static_world:
  assumes "segs \<in> set static_get_routes"
  shows "fst (serve w GET segs hs pl) = w"
proof (cases "accepted pl")
  case False
  from serve_rejected [OF False, of w GET segs hs] show ?thesis
    by auto
next
  case True
  from assms consider "segs = []" | "segs = [''html-example'']" | "segs = [''json-example'']"
    | "segs = [''middleware-example'']"
    by (auto simp: static_get_routes_def)
  then show ?thesis
  proof cases
    case 1
    with True show ?thesis by (simp add: serve_accepted route_root)
  next
    case 2
    with True show ?thesis by (simp add: serve_accepted route_html_example)
  next
    case 3
    with True show ?thesis by (simp add: serve_accepted route_json_example)
  next
    case 4
    with True show ?thesis
      by (simp add: serve_accepted route_middleware_example fresh_res_def)
  qed
qed

lemma serve_static_plain:
  assumes "segs \<in> set static_get_routes" and "accepted pl" and "plain_request hs"
  shows "snd (serve w GET segs hs pl) = snd (serve w GET segs [] NoBody)"
proof -
  note plain = assms(3) plain_request_Nil
  note hdr = plain_request_none_match [OF assms(3)] plain_request_none_match [OF plain_request_Nil]
  from assms(1) consider "segs = []" | "segs = [''html-example'']" | "segs = [''json-example'']"
    | "segs = [''middleware-example'']"
    by (auto simp: static_get_routes_def)
  then show ?thesis
  proof cases
    case 1
    with assms(2) hdr show ?thesis
      by (simp add: serve_accepted route_root res_send_def not_fresh)
  next
    case 2
    with assms(2) plain show ?thesis
      by (simp add: serve_accepted route_html_example send_file_def split: option.splits)
  next
    case 3
    with assms(2) hdr show ?thesis
      by (simp add: serve_accepted route_json_example res_json_def not_fresh)
  next
    case 4
    with assms(2) hdr show ?thesis
      by (simp add: serve_accepted route_middleware_example res_send_def not_fresh
            fresh_res_def)
  qed
qed

text \<open>
  C8, as the program has it: the GET routes \<^verbatim>\<open>/\<close>, \<^verbatim>\<open>/html-example\<close>, \<^verbatim>\<open>/json-example\<close> and
  \<^verbatim>\<open>/middleware-example\<close> are idempotent and deterministic. After any sequence of such
  requests the world is what it was, whatever the requests carry, and each response is
  the one that the same request gets in the initial world, wherever it stands in the
  sequence. When the body parsers let the bodies through and the requests carry no
  conditional or range header, each response is the one that the route gives to a plain
  request: two such calls of the same route get identical responses.
\<close>

theorem get_routes_idempotent:
  assumes "list_all (\<lambda>(m, segs, hs, pl). m = GET \<and> segs \<in> set static_get_routes) rqs"
  shows "fst (serve_all w rqs) = w \<and>
     snd (serve_all w rqs) = map (\<lambda>(m, segs, hs, pl). snd (serve w m segs hs pl)) rqs \<and>
     (list_all (\<lambda>(m, segs, hs, pl). accepted pl \<and> plain_request hs) rqs \<longrightarrow>
        snd (serve_all w rqs) =
          map (\<lambda>(m, segs, hs, pl). snd (serve w GET segs [] NoBody)) rqs)"
  using assms
proof (induction rqs)
  case Nil
  show ?case by simp
next
  case (Cons rq rqs)
  obtain m segs hs pl where rq: "rq = (m, segs, hs, pl)"
    by (cases rq)
  with Cons.prems have m: "m = GET" and segs: "segs \<in> set static_get_routes"
    and rest: "list_all (\<lambda>(m, segs, hs, pl). m = GET \<and> segs \<in> set static_get_routes) rqs"
    by simp_all
  have same: "serve w m segs hs pl = (w, snd (serve w m segs hs pl))"
    unfolding m using serve_static_world [OF segs, of w hs pl]
    by (cases "serve w GET segs hs pl") simp
  have plain: "accepted pl \<Longrightarrow> plain_request hs \<Longrightarrow>
      snd (serve w m segs hs pl) = snd (serve w GET segs [] NoBody)"
    unfolding m by (rule serve_static_plain [OF segs])
  from Cons.IH [OF rest] have ih1: "fst (serve_all w rqs) = w"
    and ih2: "snd (serve_all w rqs) = map (\<lambda>(m, segs, hs, pl). snd (serve w m segs hs pl)) rqs"
    by simp_all
  from Cons.IH [OF rest]
  have ih3: "list_all (\<lambda>(m, segs, hs, pl). accepted pl \<and> plain_request hs) rqs \<Longrightarrow>
        snd (serve_all w rqs) =
          map (\<lambda>(m, segs, hs, pl). snd (serve w GET segs [] NoBody)) rqs"
    by blast
  obtain w2 rs where all: "serve_all w rqs = (w2, rs)"
    by (cases "serve_all w rqs")
  with ih1 have w2: "w2 = w"
    by simp
  have step: "serve_all w (rq # rqs) = (w, snd (serve w m segs hs pl) # rs)"
    unfolding rq serve_all.simps
    by (subst same) (simp add: all w2)
  from all ih2 have rs: "rs = map (\<lambda>(m, segs, hs, pl). snd (serve w m segs hs pl)) rqs"
    by simp
  show ?case
  proof (intro conjI impI)
    show "fst (serve_all w (rq # rqs)) = w"
      by (simp only: step fst_conv)
    show "snd (serve_all w (rq # rqs)) =
        map (\<lambda>(m, segs, hs, pl). snd (serve w m segs hs pl)) (rq # rqs)"
      unfolding step by (simp add: rs rq)
    assume ok: "list_all (\<lambda>(m, segs, hs, pl). accepted pl \<and> plain_request hs) (rq # rqs)"
    with rq have here: "accepted pl" "plain_request hs"
      and there: "list_all (\<lambda>(m, segs, hs, pl). accepted pl \<and> plain_request hs) rqs"
      by simp_all
    from ih3 [OF there] all
    have "rs = map (\<lambda>(m, segs, hs, pl). snd (serve w GET segs [] NoBody)) rqs"
      by simp
    with plain [OF here]
    show "snd (serve_all w (rq # rqs)) =
        map (\<lambda>(m, segs, hs, pl). snd (serve w GET segs [] NoBody)) (rq # rqs)"
      unfolding step by (simp add: rq)
  qed
qed

theorem get_routes_idempotent_witness:
  "serve_all example_world
     [(GET, [], [], NoBody), (GET, [''html-example''], [], NoBody),
      (GET, [], [(''accept'', ''*/*'')], JsonBody (JObj [])),
      (GET, [''html-example''], [], UrlEncoded (JObj []))] =
   (example_world,
    [\<lparr>status = 200, content_type = ''text/html; charset=utf-8'', sent = Text ''Goodbye world!''\<rparr>,
     \<lparr>status = 200, content_type = ''text/html; charset=UTF-8'', sent = Text ''<h1>Hello!</h1>''\<rparr>,
     \<lparr>status = 200, content_type = ''text/html; charset=utf-8'', sent = Text ''Goodbye world!''\<rparr>,
     \<lparr>status = 200, content_type = ''text/html; charset=UTF-8'', sent = Text ''<h1>Hello!</h1>''\<rparr>])"
proof -
  let ?rqs = "[(GET, [], [], NoBody), (GET, [''html-example''], [], NoBody),
      (GET, [], [(''accept'', ''*/*'')], JsonBody (JObj [])),
      (GET, [''html-example''], [], UrlEncoded (JObj []))]"
  have routes: "list_all (\<lambda>(m, segs, hs, pl). m = GET \<and> segs \<in> set static_get_routes) ?rqs"
    by (simp add: static_get_routes_def)
  have ok: "list_all (\<lambda>(m, segs, hs, pl). accepted pl \<and> plain_request hs) ?rqs"
    by (simp add: plain_request_def header_def)
  have page: "fs example_world (dirname example_world @ ''/public/some-page.html'')
                = Some ''<h1>Hello!</h1>''"
    by (simp add: example_world_def)
  have root: "snd (serve example_world GET [] [] NoBody) =
      \<lparr>status = 200, content_type = ''text/html; charset=utf-8'', sent = Text ''Goodbye world!''\<rparr>"
    by (simp add: serve_accepted route_root res_send_def not_fresh header_def fresh_res_def)
  have html: "snd (serve example_world GET [''html-example''] [] NoBody) =
      \<lparr>status = 200, content_type = ''text/html; charset=UTF-8'', sent = Text ''<h1>Hello!</h1>''\<rparr>"
    by (simp add: serve_accepted route_html_example send_file_def plain_request_Nil page
          fresh_res_def)
  from get_routes_idempotent [OF routes, of example_world] ok
  have "fst (serve_all example_world ?rqs) = example_world"
    and "snd (serve_all example_world ?rqs) =
          map (\<lambda>(m, segs, hs, pl). snd (serve example_world GET segs [] NoBody)) ?rqs"
    by blast+
  then show ?thesis
    by (cases "serve_all example_world ?rqs") (simp add: root html)
qed

text \<open>
  Two calls of the same route need not get the same response: of two GETs to the root
  route, the one with the JSON body \<^verbatim>\<open>null\<close> gets the 400 error page.
\<close>

theorem get_routes_not_identical:
  "serve_all example_world [(GET, [], [], NoBody), (GET, [], [], JsonBody JNull)] =
   (example_world,
    [\<lparr>status = 200, content_type = ''text/html; charset=utf-8'', sent = Text ''Goodbye world!''\<rparr>,
     \<lparr>status = 400, content_type = ''text/html; charset=utf-8'', sent = ErrorPage\<rparr>])"
  by (simp add: serve_json_null serve_accepted route_root res_send_def not_fresh header_def
        fresh_res_def)

subsection \<open>POST /post-example\<close>

lemma route_post_example:
  "req_method rq = POST \<Longrightarrow> segments rq = [''post-example''] \<Longrightarrow> body rq = Some b \<Longrightarrow>
     run routes w rq rs =
       (w, res_json w rq rs
             (JObj [(''status'', JStr ''amazing success!''),
                    (''message'', JStr ''congratulations on sending us this data!''),
                    (''your_data'',
                       JObj (object [(''name'', get_prop b ''your_name''),
                                     (''email'', get_prop b ''your_email''),
                                     (''agree'', get_prop b ''agree'')]))]))"
  by (simp add: match_defs post_post_example_def)

text \<open>
  C6: a POST to \<^verbatim>\<open>/post-example\<close> whose form-urlencoded body has the string fields
  your_name, your_email and agree is answered with status 200 and a JSON object whose
  status is \<^verbatim>\<open>amazing success!\<close> and whose your_data is exactly the three strings, under
  the names name, email and agree, whatever headers the request carries.
\<close>

theorem post_example_echo:
  assumes "map_of kvs ''your_name'' = Some (JStr name)"
    and "map_of kvs ''your_email'' = Some (JStr email)"
    and "map_of kvs ''agree'' = Some (JStr agree)"
  shows "serve w POST [''post-example''] hs (UrlEncoded (JObj kvs)) =
     (w, \<lparr>status = 200, content_type = ''application/json; charset=utf-8'',
          sent = Json (JObj [(''status'', JStr ''amazing success!''),
                   (''message'', JStr ''congratulations on sending us this data!''),
                   (''your_data'', JObj [(''name'', JStr name), (''email'', JStr email),
                                        (''agree'', JStr agree)])])\<rparr>)"
  using assms
  by (simp add: serve_accepted route_post_example parsed_def res_json_def not_fresh_POST
        fresh_res_def)

theorem post_example_echo_witness:
  "serve example_world POST [''post-example'']
      [(''content-type'', ''application/x-www-form-urlencoded'')]
      (UrlEncoded (JObj [(''your_name'', JStr ''Foo''),
                         (''your_email'', JStr ''fb1258@nyu.edu''),
                         (''agree'', JStr ''true'')])) =
     (example_world,
      \<lparr>status = 200, content_type = ''application/json; charset=utf-8'',
       sent = Json (JObj [(''status'', JStr ''amazing success!''),
                (''message'', JStr ''congratulations on sending us this data!''),
                (''your_data'', JObj [(''name'', JStr ''Foo''),
                                     (''email'', JStr ''fb1258@nyu.edu''),
                                     (''agree'', JStr ''true'')])])\<rparr>)"
  using post_example_echo
    [of "[(''your_name'', JStr ''Foo''), (''your_email'', JStr ''fb1258@nyu.edu''),
          (''agree'', JStr ''true'')]"
        "''Foo''" "''fb1258@nyu.edu''" "''true''" example_world
        "[(''content-type'', ''application/x-www-form-urlencoded'')]"]
  by simp

subsection \<open>GET /dotenv-example\<close>

lemma req_fresh_calls [simp]: "req_fresh (w\<lparr>calls := cs\<rparr>) rq rs c = req_fresh w rq rs c"
  by (cases "header (headers rq) ''if-none-match''") (simp_all add: req_fresh_def)

lemma res_json_calls [simp]: "res_json (w\<lparr>calls := cs\<rparr>) rq rs j = res_json w rq rs j"
  by (simp add: res_json_def)

lemma route_dotenv_example:
  "req_method rq = GET \<Longrightarrow> segments rq = [''dotenv-example''] \<Longrightarrow>
     run routes w rq rs =
       (w\<lparr>calls := calls w @ [dotenv_url w]\<rparr>,
        res_json w rq rs
          (case upstream w (length (calls w)) (dotenv_url w) of
             Inl err \<Rightarrow> dotenv_error
           | Inr d \<Rightarrow> d))"
  by (simp add: match_defs get_dotenv_example_def axios_get_def split: sum.splits)

text \<open>
  C3, as the program has it: on a GET to \<^verbatim>\<open>/dotenv-example\<close> whose body the body parsers
  let through and that carries no \<^verbatim>\<open>If-None-Match\<close> header, one upstream call is made, to
  the URL built from the two environment variables (the word \<^verbatim>\<open>undefined\<close> stands for an
  absent one). When the call succeeds the body is the upstream data, unchanged; when it
  fails, whatever was thrown, the body is the object with \<^verbatim>\<open>success: false\<close> and the setup
  instructions. The status is 200 in both cases: no error leaves the handler.
\<close>

theorem dotenv_example_responses:
  assumes "accepted pl" and "header hs ''if-none-match'' = None"
  shows
  "(upstream w (length (calls w)) (dotenv_url w) = Inr d \<longrightarrow>
      sent (snd (serve w GET [''dotenv-example''] hs pl)) = Json d) \<and>
   (upstream w (length (calls w)) (dotenv_url w) = Inl e \<longrightarrow>
      sent (snd (serve w GET [''dotenv-example''] hs pl)) =
        Json (JObj [(''success'', JBool False),
                    (''error'', JStr (''Oops... In order to use the dotenv module, you must ''
                       @ ''first make a file named .env on your server - see the ''
                       @ ''.env.example file for example.''))])) \<and>
   status (snd (serve w GET [''dotenv-example''] hs pl)) = 200 \<and>
   content_type (snd (serve w GET [''dotenv-example''] hs pl)) =
     ''application/json; charset=utf-8'' \<and>
   calls (fst (serve w GET [''dotenv-example''] hs pl)) =
     calls w @ [template (env w ''API_BASE_URL'') @ ''?key=''
                  @ template (env w ''API_SECRET_KEY'') @ ''&num=10'']"
  using assms
  by (simp add: serve_accepted route_dotenv_example res_json_def not_fresh fresh_res_def
        dotenv_error_def dotenv_url_def)

theorem dotenv_example_responses_witness:
  "sent (snd (serve example_world GET [''dotenv-example''] [] NoBody)) = Json (JArr [JStr ''cat'']) \<and>
   calls (fst (serve example_world GET [''dotenv-example''] [] NoBody)) =
     [''https://api.example/animals.json?key=s3cret&num=10''] \<and>
   sent (snd (serve (example_world\<lparr>env := Map.empty\<rparr>) GET [''dotenv-example''] [] NoBody)) =
     Json dotenv_error \<and>
   calls (fst (serve (example_world\<lparr>env := Map.empty\<rparr>) GET [''dotenv-example''] [] NoBody)) =
     [''undefined?key=undefined&num=10'']"
proof -
  have a: "accepted NoBody"
    by simp
  have h: "header [] ''if-none-match'' = None"
    by (simp add: header_def)
  from dotenv_example_responses
      [OF a h, where w = example_world and d = "JArr [JStr ''cat'']"]
    dotenv_example_responses
      [OF a h, where w = "example_world\<lparr>env := Map.empty\<rparr>"
         and e = "\<lparr>thrown_status = None,
                    thrown_json = JObj [(''code'', JStr ''ERR_INVALID_URL''),
                                        (''input'', JStr ''undefined?key=undefined&num=10'')]\<rparr>"]
  show ?thesis
    by (simp add: example_world_def dotenv_url_def dotenv_error_def template_def)
qed

text \<open>
  Not every GET to \<^verbatim>\<open>/dotenv-example\<close> is answered with the upstream data or the error
  object. In a world where the upstream call succeeds: with a JSON body \<^verbatim>\<open>null\<close> the
  request gets the 400 error page and no upstream call is made; with \<^verbatim>\<open>If-None-Match: *\<close>
  the call is made and succeeds, and the answer is 304 without a body.
\<close>

theorem dotenv_example_not_always:
  "upstream example_world 0 (dotenv_url example_world) = Inr (JArr [JStr ''cat'']) \<and>
   serve example_world GET [''dotenv-example''] [] (JsonBody JNull) =
     (example_world,
      \<lparr>status = 400, content_type = ''text/html; charset=utf-8'', sent = ErrorPage\<rparr>) \<and>
   serve example_world GET [''dotenv-example''] [(''if-none-match'', ''*'')] NoBody =
     (example_world\<lparr>calls := [''https://api.example/animals.json?key=s3cret&num=10'']\<rparr>,
      \<lparr>status = 304, content_type = [], sent = Text []\<rparr>)"
proof -
  have up: "upstream example_world 0 (dotenv_url example_world) = Inr (JArr [JStr ''cat''])"
    and url: "dotenv_url example_world = ''https://api.example/animals.json?key=s3cret&num=10''"
    and cs: "calls example_world = []"
    by (simp_all add: example_world_def dotenv_url_def template_def)
  have "serve example_world GET [''dotenv-example''] [(''if-none-match'', ''*'')] NoBody =
     (example_world\<lparr>calls := [''https://api.example/animals.json?key=s3cret&num=10'']\<rparr>,
      \<lparr>status = 304, content_type = [], sent = Text []\<rparr>)"
    by (simp add: serve_accepted route_dotenv_example res_json_def fresh_star fresh_res_def
          not_modified_def url cs)
  with up show ?thesis
    by (simp add: serve_json_null)
qed

subsection \<open>GET /parameter-example/:animalId\<close>

lemma route_parameter_example:
  "req_method rq = GET \<Longrightarrow> segments rq = [''parameter-example'', animalId] \<Longrightarrow>
   animalId \<noteq> [] \<Longrightarrow>
     run routes w rq rs =
       (w\<lparr>calls := calls w @ [parameter_url w (Some animalId)]\<rparr>,
        res_json w rq rs
          (case upstream w (length (calls w)) (parameter_url w (Some animalId)) of
             Inl err \<Rightarrow> thrown_json err
           | Inr d \<Rightarrow>
               JObj [(''status'', JStr ''wonderful''),
                     (''message'',
                        JStr (''Imagine we got the data from the API for animal #''
                                @ animalId)),
                     (''animalId'', JStr animalId),
                     (''animal'', d)]))"
  by (simp add: match_defs get_parameter_example_def axios_get_def template_def
        split: sum.splits)

text \<open>
  C4, as the program has it: on a GET to \<^verbatim>\<open>/parameter-example/:animalId\<close> whose body the
  body parsers let through and that carries no \<^verbatim>\<open>If-None-Match\<close> header, the path
  parameter goes to the upstream API as the query parameter \<^verbatim>\<open>id\<close>, at the end of the
  requested URL. When the upstream call succeeds the answer is 200 with exactly the
  object of the properties status (\<^verbatim>\<open>wonderful\<close>), message, animalId (the path parameter)
  and animal (the upstream data); when it fails, the answer is what was thrown, as JSON.
\<close>

theorem parameter_example_responses:
  assumes "animalId \<noteq> []" and "accepted pl" and "header hs ''if-none-match'' = None"
  shows
  "calls (fst (serve w GET [''parameter-example'', animalId] hs pl)) =
     calls w @ [template (env w ''API_BASE_URL'') @ ''?key=''
                  @ template (env w ''API_SECRET_KEY'') @ ''&num=1'' @ ''&id='' @ animalId] \<and>
   (upstream w (length (calls w)) (parameter_url w (Some animalId)) = Inr d \<longrightarrow>
      snd (serve w GET [''parameter-example'', animalId] hs pl) =
        \<lparr>status = 200, content_type = ''application/json; charset=utf-8'',
         sent = Json (JObj [(''status'', JStr ''wonderful''),
                  (''message'',
                     JStr (''Imagine we got the data from the API for animal #'' @ animalId)),
                  (''animalId'', JStr animalId),
                  (''animal'', d)])\<rparr>) \<and>
   (upstream w (length (calls w)) (parameter_url w (Some animalId)) = Inl e \<longrightarrow>
      snd (serve w GET [''parameter-example'', animalId] hs pl) =
        \<lparr>status = 200, content_type = ''application/json; charset=utf-8'',
         sent = Json (thrown_json e)\<rparr>)"
  using assms
  by (simp add: serve_accepted route_parameter_example res_json_def not_fresh fresh_res_def
        parameter_url_def template_def)

theorem parameter_example_responses_witness:
  "snd (serve example_world GET [''parameter-example'', ''42''] [] NoBody) =
     \<lparr>status = 200, content_type = ''application/json; charset=utf-8'',
      sent = Json (JObj [(''status'', JStr ''wonderful''),
               (''message'', JStr ''Imagine we got the data from the API for animal #42''),
               (''animalId'', JStr ''42''),
               (''animal'', JArr [JStr ''cat''])])\<rparr> \<and>
   calls (fst (serve example_world GET [''parameter-example'', ''42''] [] NoBody)) =
     [''https://api.example/animals.json?key=s3cret&num=1&id=42''] \<and>
   snd (serve (example_world\<lparr>env := Map.empty\<rparr>) GET
                [''parameter-example'', ''42''] [] NoBody) =
     \<lparr>status = 200, content_type = ''application/json; charset=utf-8'',
      sent = Json (JObj [(''code'', JStr ''ERR_INVALID_URL''),
                         (''input'', JStr ''undefined?key=undefined&num=1&id=42'')])\<rparr>"
proof -
  have ne: "''42'' \<noteq> []" by simp
  have a: "accepted NoBody"
    by simp
  have h: "header [] ''if-none-match'' = None"
    by (simp add: header_def)
  from parameter_example_responses
      [OF ne a h, where w = example_world and d = "JArr [JStr ''cat'']"]
    parameter_example_responses
      [OF ne a h, where w = "example_world\<lparr>env := Map.empty\<rparr>"
         and e = "\<lparr>thrown_status = None,
                    thrown_json = JObj [(''code'', JStr ''ERR_INVALID_URL''),
                                        (''input'', JStr ''undefined?key=undefined&num=1&id=42'')]\<rparr>"]
  show ?thesis
    by (simp add: example_world_def parameter_url_def template_def)
qed

text \<open>
  Not every GET to \<^verbatim>\<open>/parameter-example/42\<close> whose upstream call succeeds is answered
  with the \<^verbatim>\<open>wonderful\<close> object. In a world where the call succeeds: with a JSON body
  \<^verbatim>\<open>null\<close> the request gets the 400 error page and no upstream call is made; with
  \<^verbatim>\<open>If-None-Match: *\<close> the call is made and succeeds, and the answer is 304 without a body.
\<close>

theorem parameter_example_not_always:
  "upstream example_world 0 (parameter_url example_world (Some ''42'')) =
     Inr (JArr [JStr ''cat'']) \<and>
   serve example_world GET [''parameter-example'', ''42''] [] (JsonBody JNull) =
     (example_world,
      \<lparr>status = 400, content_type = ''text/html; charset=utf-8'', sent = ErrorPage\<rparr>) \<and>
   serve example_world GET [''parameter-example'', ''42''] [(''if-none-match'', ''*'')] NoBody =
     (example_world\<lparr>calls := [''https://api.example/animals.json?key=s3cret&num=1&id=42'']\<rparr>,
      \<lparr>status = 304, content_type = [], sent = Text []\<rparr>)"
proof -
  have up: "upstream example_world 0 (parameter_url example_world (Some ''42'')) =
      Inr (JArr [JStr ''cat''])"
    and url: "parameter_url example_world (Some ''42'') =
      ''https://api.example/animals.json?key=s3cret&num=1&id=42''"
    and cs: "calls example_world = []"
    by (simp_all add: example_world_def parameter_url_def template_def)
  have "serve example_world GET [''parameter-example'', ''42''] [(''if-none-match'', ''*'')]
          NoBody =
     (example_world\<lparr>calls := [''https://api.example/animals.json?key=s3cret&num=1&id=42'']\<rparr>,
      \<lparr>status = 304, content_type = [], sent = Text []\<rparr>)"
    by (simp add: serve_accepted route_parameter_example res_json_def fresh_star fresh_res_def
          not_modified_def url cs)
  with up show ?thesis
    by (simp add: serve_json_null)
qed

subsection \<open>The disk storage and multer's array middleware\<close>

lemma handle_file_eq:
  "handle_file w p =
     (w\<lparr>reads := Suc (reads w),
        fs := (fs w)(''public/uploads/''
                 @ basename (part_originalname p) (extname (part_originalname p))
                 @ ''-'' @ decimal (clock w (reads w)) @ extname (part_originalname p)
                 \<mapsto> part_data p)\<rparr>,
      \<lparr>fieldname = part_fieldname p, originalname = part_originalname p,
       encoding = part_encoding p, mimetype = part_mimetype p,
       destination = ''public/uploads'',
       filename = basename (part_originalname p) (extname (part_originalname p))
                 @ ''-'' @ decimal (clock w (reads w)) @ extname (part_originalname p),
       path = ''public/uploads/''
                 @ basename (part_originalname p) (extname (part_originalname p))
                 @ ''-'' @ decimal (clock w (reads w)) @ extname (part_originalname p),
       size_bytes = length (part_data p)\<rparr>)"
  by (simp add: handle_file_def storage_filename_def storage_destination_def date_now_def
        Let_def)

lemma clock_handle_file: "clock (fst (handle_file w p)) = clock w"
  by (simp add: handle_file_eq)

lemma reads_handle_file: "reads (fst (handle_file w p)) = Suc (reads w)"
  by (simp add: handle_file_eq)



lemma multer_files_Cons:
  "multer_files field left w (p # ps) acc =
     (if part_originalname p = [] then multer_files field left w ps acc
      else if part_fieldname p \<noteq> field \<or> left = 0
        then (remove_uploaded w acc, Inl (MulterError ''LIMIT_UNEXPECTED_FILE''))
      else multer_files field (left - 1) (fst (handle_file w p)) ps
             (acc @ [snd (handle_file w p)]))"
  by (simp add: case_prod_beta)

lemma named_parts_Cons:
  "named_parts (p # ps) =
     (if part_originalname p = [] then named_parts ps else p # named_parts ps)"
  by (simp add: named_parts_def)

lemma named_parts_named: "list_all (\<lambda>p. part_originalname p \<noteq> []) (named_parts ps)"
  by (simp add: named_parts_def list_all_iff)

text \<open>Parts without a file name make no difference to what multer does.\<close>

lemma multer_files_named:
  "multer_files field left w ps acc = multer_files field left w (named_parts ps) acc"
proof (induction ps arbitrary: left w acc)
  case Nil
  show ?case by (simp add: named_parts_def)
next
  case (Cons p ps)
  show ?case
  proof (cases "part_originalname p = []")
    case True
    then show ?thesis
      by (simp add: named_parts_Cons Cons.IH [symmetric])
  next
    case False
    then show ?thesis
      by (simp add: named_parts_Cons Cons.IH [symmetric])
  qed
qed

text \<open>
  When multer accepts named parts: there were at most \<open>left\<close> of them, the descriptors
  are appended one per part, the clock was read once per part.
\<close>

lemma multer_files_shape:
  "list_all (\<lambda>p. part_originalname p \<noteq> []) ps \<Longrightarrow>
   multer_files field left w ps acc = (w', Inr fl) \<Longrightarrow>
     length ps \<le> left \<and> take (length acc) fl = acc \<and> length fl = length acc + length ps
     \<and> clock w' = clock w \<and> reads w' = reads w + length ps"
proof (induction ps arbitrary: left w acc)
  case Nil
  then show ?case by simp
next
  case (Cons p ps)
  let ?f = "snd (handle_file w p)"
  from Cons.prems(1) have nm: "part_originalname p \<noteq> []"
    and rest: "list_all (\<lambda>p. part_originalname p \<noteq> []) ps"
    by simp_all
  from Cons.prems(2) nm have ok: "part_fieldname p = field" "left \<noteq> 0"
    by (auto simp only: multer_files_Cons split: if_splits)
  with Cons.prems(2) nm
  have rec: "multer_files field (left - 1) (fst (handle_file w p)) ps (acc @ [?f]) = (w', Inr fl)"
    by (simp only: multer_files_Cons if_False simp_thms)
  note ih = Cons.IH [OF rest rec]
  from ih have "take (length acc) (take (length (acc @ [?f])) fl) = take (length acc) (acc @ [?f])"
    by simp
  then have "take (length acc) fl = acc"
    by simp
  with ih ok show ?case
    by (auto simp add: clock_handle_file reads_handle_file)
qed




lemma multer_files_too_many:
  "list_all (\<lambda>p. part_originalname p \<noteq> []) ps \<Longrightarrow> left < length ps \<Longrightarrow>
     \<exists>w'. multer_files field left w ps acc = (w', Inl (MulterError ''LIMIT_UNEXPECTED_FILE''))"
proof (induction ps arbitrary: left w acc)
  case Nil
  then show ?case by simp
next
  case (Cons p ps)
  from Cons.prems(1) have nm: "part_originalname p \<noteq> []"
    and rest: "list_all (\<lambda>p. part_originalname p \<noteq> []) ps"
    by simp_all
  show ?case
  proof (cases "part_fieldname p \<noteq> field \<or> left = 0")
    case True
    with nm show ?thesis by (simp only: multer_files_Cons if_True if_False simp_thms) blast
  next
    case False
    with Cons.prems(2) have "left - 1 < length ps" by auto
    from Cons.IH [OF rest this] False nm show ?thesis
      by (simp only: multer_files_Cons if_False)
  qed
qed

lemma multer_files_accepts:
  "list_all (\<lambda>p. part_originalname p \<noteq> []) ps \<Longrightarrow> length ps \<le> left \<Longrightarrow>
   list_all (\<lambda>p. part_fieldname p = field) ps \<Longrightarrow>
     \<exists>w' fl. multer_files field left w ps acc = (w', Inr fl)"
proof (induction ps arbitrary: left w acc)
  case Nil
  then show ?case by simp
next
  case (Cons p ps)
  then have nm: "part_originalname p \<noteq> []"
    and rest: "list_all (\<lambda>p. part_originalname p \<noteq> []) ps"
    and ok: "\<not> (part_fieldname p \<noteq> field \<or> left = 0)" and len: "length ps \<le> left - 1"
    and fld: "list_all (\<lambda>p. part_fieldname p = field) ps"
    by auto
  from Cons.IH [OF rest len fld] ok nm show ?case
    by (simp only: multer_files_Cons if_False)
qed

subsection \<open>POST /upload-example through the layers\<close>

lemma serve_upload_multipart:
  "serve w POST [''upload-example''] hs (Multipart ps) =
     (case multer_files ''my_files'' 3 w ps [] of
        (w', Inl e) \<Rightarrow> (w', error_response e)
      | (w', Inr fl) \<Rightarrow>
          (w', \<lparr>status = 200, content_type = ''application/json; charset=utf-8'',
                sent = Json (if fl = [] \<or> 3 < length fl then failure_body
                             else JObj [(''status'', JStr ''all good''),
                                        (''message'', JStr ''files were uploaded!!!''),
                                        (''files'', JArr (map file_json fl))])\<rparr>))"
  by (simp add: serve_accepted match_defs upload_array_def post_upload_example_def
        res_json_def req_fresh_def fresh_res_def split: prod.splits sum.splits)

lemma serve_upload_not_multipart:
  "accepted pl \<Longrightarrow> \<forall>ps. pl \<noteq> Multipart ps \<Longrightarrow>
     serve w POST [''upload-example''] hs pl =
       (w, \<lparr>status = 200, content_type = ''application/json; charset=utf-8'',
            sent = Json failure_body\<rparr>)"
  by (cases pl)
     (simp_all add: serve_accepted match_defs upload_array_def post_upload_example_def
        res_json_def req_fresh_def fresh_res_def)

lemma serve_upload_too_many:
  assumes "3 < length (named_parts ps)"
  shows "snd (serve w POST [''upload-example''] hs (Multipart ps)) =
           error_response (MulterError ''LIMIT_UNEXPECTED_FILE'')"
proof -
  from multer_files_too_many [OF named_parts_named assms]
  obtain w' where "multer_files ''my_files'' 3 w (named_parts ps) [] =
      (w', Inl (MulterError ''LIMIT_UNEXPECTED_FILE''))"
    by blast
  then have "multer_files ''my_files'' 3 w ps [] =
      (w', Inl (MulterError ''LIMIT_UNEXPECTED_FILE''))"
    by (simp only: multer_files_named [of _ _ _ ps])
  then show ?thesis
    by (simp add: serve_upload_multipart)
qed

text \<open>No named file: the failure body, with status 200.\<close>

lemma serve_upload_no_files:
  assumes "named_parts ps = []"
  shows "serve w POST [''upload-example''] hs (Multipart ps) =
     (w, \<lparr>status = 200, content_type = ''application/json; charset=utf-8'',
          sent = Json (JObj [(''status'', JStr ''you fail!!!''),
                             (''message'', JStr ''rejected your files... try harder'')])\<rparr>)"
proof -
  have "multer_files ''my_files'' 3 w ps [] = multer_files ''my_files'' 3 w [] []"
    using multer_files_named [of "''my_files''" 3 w ps "[]"] assms by simp
  then show ?thesis
    by (simp add: serve_upload_multipart failure_body_def)
qed

text \<open>One to three files under the field \<^verbatim>\<open>my_files\<close>: the success body, one descriptor each.\<close>

lemma serve_upload_one_to_three:
  assumes "named_parts ps \<noteq> []" and "length (named_parts ps) \<le> 3"
    and "list_all (\<lambda>p. part_fieldname p = ''my_files'') (named_parts ps)"
  shows "\<exists>fl. length fl = length (named_parts ps) \<and>
           snd (serve w POST [''upload-example''] hs (Multipart ps)) =
             \<lparr>status = 200, content_type = ''application/json; charset=utf-8'',
              sent = Json (JObj [(''status'', JStr ''all good''),
                                 (''message'', JStr ''files were uploaded!!!''),
                                 (''files'', JArr (map file_json fl))])\<rparr>"
proof -
  from multer_files_accepts [OF named_parts_named assms(2,3)]
  obtain w' fl where mf: "multer_files ''my_files'' 3 w (named_parts ps) [] = (w', Inr fl)"
    by blast
  from multer_files_shape [OF named_parts_named mf] have len: "length fl = length (named_parts ps)"
    by simp
  with assms(1,2) have "fl \<noteq> []" and "\<not> 3 < length fl"
    by auto
  moreover from mf have "multer_files ''my_files'' 3 w ps [] = (w', Inr fl)"
    by (simp only: multer_files_named [of _ _ _ ps])
  ultimately show ?thesis
    using len by (auto simp add: serve_upload_multipart)
qed

text \<open>
  The handler's own branch for more than three files: the failure body. The theorems
  below show that no request reaches it.
\<close>

lemma handler_more_than_three:
  "3 < length fl \<Longrightarrow>
     post_upload_example w (rq\<lparr>files := Some fl\<rparr>) rs =
       (w, Sent (res_json w (rq\<lparr>files := Some fl\<rparr>) rs failure_body))"
  by (auto simp add: post_upload_example_def)

subsection \<open>Node's path functions on a file name\<close>

lemma last_component_no_slash:
  assumes "CHR ''/'' \<notin> set n"
  shows "last_component n = n"
proof -
  from assms have all: "\<forall>x\<in>set (rev n). x \<noteq> CHR ''/''"
    by auto
  then have d: "dropWhile (\<lambda>c. c = CHR ''/'') (rev n) = rev n"
    by (cases "rev n") auto
  from all have t: "takeWhile (\<lambda>c. c \<noteq> CHR ''/'') (rev n) = rev n"
    by (simp add: takeWhile_eq_all_conv)
  show ?thesis
    unfolding last_component_def d t by (rule rev_rev_ident)
qed

lemma length_last_component: "length (last_component p) \<le> length p"
proof -
  have "length (takeWhile (\<lambda>c. c \<noteq> CHR ''/'') (dropWhile (\<lambda>c. c = CHR ''/'') (rev p)))
          \<le> length (dropWhile (\<lambda>c. c = CHR ''/'') (rev p))"
    by (rule length_takeWhile_le)
  also have "\<dots> \<le> length (rev p)"
    by (rule length_dropWhile_le)
  finally show ?thesis
    by (simp add: last_component_def)
qed

text \<open>
  The base name without the extension, followed by the extension, is the last component
  again: the stored name only inserts the dash and the timestamp between the two.
\<close>

lemma basename_extname:
  "basename p (extname p) @ extname p = last_component p"
proof (cases "extname p = []")
  case True
  then show ?thesis
    by (simp add: basename_def)
next
  case False
  define c where "c = last_component p"
  define dot where "dot = length c - Suc (length (takeWhile (\<lambda>x. x \<noteq> CHR ''.'') (rev c)))"
  from False have ext: "extname p = drop dot c"
    by (auto simp: extname_def Let_def c_def dot_def split: if_splits)
  from False have dot0: "dot \<noteq> 0"
    by (auto simp: extname_def Let_def c_def dot_def split: if_splits)
  from False ext have dotc: "dot < length c"
    by (cases "dot < length c") auto
  have "length c \<le> length p"
    unfolding c_def by (rule length_last_component)
  with dot0 dotc ext have neq: "extname p \<noteq> p"
    by (auto dest: arg_cong [where f = length])
  from dot0 dotc have "length c - (length c - dot) = dot"
    by simp
  with neq dot0 dotc False show ?thesis
    by (simp add: basename_def Let_def ends_with_def ext c_def [symmetric])
qed

lemma stored_name_keeps_parts:
  assumes "CHR ''/'' \<notin> set n"
  shows "basename n (extname n) @ extname n = n"
  using basename_extname [of n] last_component_no_slash [OF assms] by simp

text \<open>The stored name is a single path component.\<close>

lemma decimal_digits: "set (decimal n) \<subseteq> set ''0123456789''"
proof (induction n rule: decimal.induct)
  case (1 n)
  define ds where "ds = ''0123456789''"
  have len: "length ds = 10"
    by (simp add: ds_def)
  show ?case
  proof (cases "n < 10")
    case True
    with len have "ds ! n \<in> set ds"
      by (intro nth_mem) simp
    with True show ?thesis
      by (simp only: decimal.simps [of n] ds_def if_True list.set) blast
  next
    case False
    from len have "ds ! (n mod 10) \<in> set ds"
      by (intro nth_mem) simp
    moreover from False have "set (decimal (n div 10)) \<subseteq> set ds"
      unfolding ds_def by (rule "1.IH")
    ultimately have "set (decimal (n div 10) @ [ds ! (n mod 10)]) \<subseteq> set ds"
      by simp
    with False show ?thesis
      by (simp only: decimal.simps [of n] ds_def if_False)
  qed
qed

lemma no_slash_decimal: "CHR ''/'' \<notin> set (decimal n)"
  using decimal_digits [of n] by auto

lemma no_slash_last_component: "CHR ''/'' \<notin> set (last_component p)"
  by (auto simp: last_component_def dest: set_takeWhileD)

lemma no_slash_extname: "CHR ''/'' \<notin> set (extname p)"
  using no_slash_last_component [of p]
  by (auto simp: extname_def Let_def dest: in_set_dropD)

lemma no_slash_basename: "CHR ''/'' \<notin> set (basename p suffix)"
  using no_slash_last_component [of p]
  by (auto simp: basename_def Let_def dest: in_set_takeD)

lemma stored_name_no_slash: "CHR ''/'' \<notin> set (snd (storage_filename w p))"
  by (simp add: storage_filename_def date_now_def Let_def no_slash_decimal no_slash_extname
        no_slash_basename)

subsection \<open>The stored file name\<close>

lemmas example_defs = example_upload_def example_part_def example_world_def incoming_def
  fresh_res_def

lemmas path_defs = extname_def basename_def last_component_def ends_with_def Let_def

lemma example_upload_accepted:
  "upload_array ''my_files'' 3 example_world example_upload fresh_res =
     (example_world_after, Next (example_upload\<lparr>files := Some example_files\<rparr>) fresh_res)"
  by (simp add: upload_array_def example_defs example_files_def example_world_after_def
        handle_file_eq path_defs decimal.simps)





subsection \<open>The limit of three files\<close>

text \<open>
  C2: multer's \<^verbatim>\<open>upload.array("my_files", 3)\<close> runs before the handler. Whenever it passes
  a request on, \<^verbatim>\<open>req.files\<close> holds at most three files, so the handler's branch for more
  than three is never taken. A request with more than three files (parts with a file
  name) is ended by multer's error, which Express answers with status 500, and a
  multipart request that does get the failure body carried no file at all.
\<close>

theorem multer_limit_before_handler:
  "(files rq = None \<and> upload_array ''my_files'' 3 w rq rs = (w', Next rq' rs')
      \<and> files rq' = Some fl \<longrightarrow> length fl \<le> 3) \<and>
   (3 < length (named_parts ps) \<longrightarrow>
      snd (serve w POST [''upload-example''] hs (Multipart ps)) =
        \<lparr>status = 500, content_type = ''text/html; charset=utf-8'', sent = ErrorPage\<rparr>) \<and>
   (sent (snd (serve w POST [''upload-example''] hs (Multipart ps))) = Json failure_body \<longrightarrow>
      named_parts ps = [])"
proof (intro conjI impI)
  assume "files rq = None \<and> upload_array ''my_files'' 3 w rq rs = (w', Next rq' rs')
      \<and> files rq' = Some fl"
  then obtain qs where "multer_files ''my_files'' 3 w qs [] = (w', Inr fl)"
    by (auto simp: upload_array_def split: payload.splits prod.splits sum.splits)
  then have "multer_files ''my_files'' 3 w (named_parts qs) [] = (w', Inr fl)"
    by (simp only: multer_files_named [of _ _ _ qs])
  from multer_files_shape [OF named_parts_named this] show "length fl \<le> 3"
    by simp
next
  assume "3 < length (named_parts ps)"
  from serve_upload_too_many [OF this, of w hs]
  show "snd (serve w POST [''upload-example''] hs (Multipart ps)) =
        \<lparr>status = 500, content_type = ''text/html; charset=utf-8'', sent = ErrorPage\<rparr>"
    by (simp add: error_response_def)
next
  assume f: "sent (snd (serve w POST [''upload-example''] hs (Multipart ps))) = Json failure_body"
  obtain w' r where mf: "multer_files ''my_files'' 3 w ps [] = (w', r)"
    by (cases "multer_files ''my_files'' 3 w ps []")
  show "named_parts ps = []"
  proof (cases r)
    case (Inl e)
    with mf f show ?thesis
      by (simp add: serve_upload_multipart error_response_def)
  next
    case (Inr fl)
    with mf have ok: "multer_files ''my_files'' 3 w ps [] = (w', Inr fl)"
      by simp
    then have "multer_files ''my_files'' 3 w (named_parts ps) [] = (w', Inr fl)"
      by (simp only: multer_files_named [of _ _ _ ps])
    from multer_files_shape [OF named_parts_named this]
    have len: "length fl = length (named_parts ps)" "length (named_parts ps) \<le> 3"
      by simp_all
    show ?thesis
    proof (rule ccontr)
      assume "named_parts ps \<noteq> []"
      with len have "fl \<noteq> []" "\<not> 3 < length fl"
        by auto
      with ok f show False
        by (simp add: serve_upload_multipart failure_body_def)
    qed
  qed
qed

theorem multer_limit_before_handler_witness:
  "files example_upload = None \<and>
   upload_array ''my_files'' 3 example_world example_upload fresh_res =
     (example_world_after, Next (example_upload\<lparr>files := Some example_files\<rparr>) fresh_res) \<and>
   length example_files \<le> 3 \<and>
   3 < length (named_parts four_parts) \<and>
   snd (serve example_world POST [''upload-example''] [] (Multipart four_parts)) =
     \<lparr>status = 500, content_type = ''text/html; charset=utf-8'', sent = ErrorPage\<rparr> \<and>
   sent (snd (serve example_world POST [''upload-example''] [] (Multipart [example_part []])))
     = Json failure_body \<and>
   named_parts [example_part []] = []"
proof -
  have none: "files example_upload = None"
    by (simp add: example_upload_def incoming_def)
  have four: "3 < length (named_parts four_parts)"
    by (simp add: four_parts_def named_parts_def example_part_def)
  have empty: "named_parts [example_part []] = []"
    by (simp add: named_parts_def example_part_def)
  have zero: "sent (snd (serve example_world POST [''upload-example''] []
                           (Multipart [example_part []]))) = Json failure_body"
    by (simp add: serve_upload_no_files [OF empty] failure_body_def)
  note t = multer_limit_before_handler
  from t [where rq = example_upload and w = example_world and rs = fresh_res
            and w' = example_world_after
            and rq' = "example_upload\<lparr>files := Some example_files\<rparr>"
            and rs' = fresh_res and fl = example_files, THEN conjunct1]
    none example_upload_accepted
  have three: "length example_files \<le> 3"
    by simp
  from t [where ps = four_parts and w = example_world and hs = "[]",
          THEN conjunct2, THEN conjunct1] four
  have rejected: "snd (serve example_world POST [''upload-example''] [] (Multipart four_parts)) =
     \<lparr>status = 500, content_type = ''text/html; charset=utf-8'', sent = ErrorPage\<rparr>"
    by simp
  from t [where ps = "[example_part []]" and w = example_world and hs = "[]",
          THEN conjunct2, THEN conjunct2] zero
  have "named_parts [example_part []] = []"
    by simp
  with none example_upload_accepted three four rejected zero show ?thesis
    by (intro conjI)
qed

subsection \<open>POST /upload-example with four files\<close>

text \<open>
  C1, at the input where the program departs from it: a POST to \<^verbatim>\<open>/upload-example\<close> with
  four files under \<^verbatim>\<open>my_files\<close> is not answered with the failure body and status 200. It
  is answered by the error handler, with status 500, although the handler's branch for
  more than three files would have sent the failure body with status 200. (With no file
  the failure body is sent, and with one to three files the success body listing that
  many descriptors: \<open>serve_upload_no_files\<close>, \<open>serve_upload_not_multipart\<close> and
  \<open>serve_upload_one_to_three\<close> above.)
\<close>

theorem upload_four_files:
  "snd (serve example_world POST [''upload-example''] [] (Multipart four_parts)) =
     \<lparr>status = 500, content_type = ''text/html; charset=utf-8'', sent = ErrorPage\<rparr> \<and>
   post_upload_example example_world
       (example_upload\<lparr>files := Some (example_files @ example_files)\<rparr>) fresh_res =
     (example_world,
      Sent \<lparr>status = 200, content_type = ''application/json; charset=utf-8'',
            sent = Json (JObj [(''status'', JStr ''you fail!!!''),
                               (''message'', JStr ''rejected your files... try harder'')])\<rparr>)"
proof -
  have "3 < length (named_parts four_parts)"
    by (simp add: four_parts_def named_parts_def example_part_def)
  from serve_upload_too_many [OF this, of example_world "[]"]
  have "snd (serve example_world POST [''upload-example''] [] (Multipart four_parts)) =
     \<lparr>status = 500, content_type = ''text/html; charset=utf-8'', sent = ErrorPage\<rparr>"
    by (simp add: error_response_def)
  moreover have "3 < length (example_files @ example_files)"
    by (simp add: example_files_def)
  from handler_more_than_three [OF this, of example_world example_upload fresh_res]
  have "post_upload_example example_world
       (example_upload\<lparr>files := Some (example_files @ example_files)\<rparr>) fresh_res =
     (example_world,
      Sent \<lparr>status = 200, content_type = ''application/json; charset=utf-8'',
            sent = Json (JObj [(''status'', JStr ''you fail!!!''),
                               (''message'', JStr ''rejected your files... try harder'')])\<rparr>)"
    by (simp add: res_json_def req_fresh_def example_upload_def incoming_def fresh_res_def
          failure_body_def)
  ultimately show ?thesis
    by simp
qed

end
